theory Spec2Isabelle
  imports Main
begin

section \<open>Data model\<close>

text \<open>
  The schedule objects handled by the React front end (\<^verbatim>\<open>src/unnamed/part_002\<close>, the
  current \<^verbatim>\<open>App.js\<close>, and the older \<^verbatim>\<open>src/frontend/src/App.js\<close>). Day types, function
  (role) types and user ids are JavaScript strings, compared with \<^verbatim>\<open>===\<close>; they are
  modelled as \<^typ>\<open>string\<close>. An assignment is the object
  \<^verbatim>\<open>{ function_type, user_ids, responses }\<close>; \<^verbatim>\<open>responses\<close> is an object keyed by user id and
  is modelled as a partial map. A schedule is \<^verbatim>\<open>{ id, date, day_type, assignments }\<close>;
  its field \<^verbatim>\<open>id\<close> is named \<open>schedule_id\<close> here.
\<close>

type_synonym userId = string

datatype status = Pending | Accepted | Declined

record response =
  status :: status
  reason :: "string option"
  recordedAt :: nat

record assignment =
  function_type :: string
  user_ids :: "userId list"
  responses :: "userId \<Rightarrow> response option"

record schedule =
  schedule_id :: string
  date :: string
  day_type :: string
  assignments :: "assignment list"

text \<open>The \<^verbatim>\<open>scheduleForm\<close> state of \<^verbatim>\<open>AdminPanel\<close> (part_002, lines 523-527).\<close>

record scheduleForm =
  form_date :: string
  form_day_type :: string
  form_assignments :: "assignment list"

section \<open>Role requirements\<close>

text \<open>\<^verbatim>\<open>getAllFunctions\<close> of \<^verbatim>\<open>ScheduleCard\<close> (part_002, lines 242-249).\<close>

definition getAllFunctions :: "string \<Rightarrow> string list" where
  "getAllFunctions dayType =
     (if dayType = ''wednesday'' \<or> dayType = ''saturday''
      then [''pregacao'', ''limpeza'', ''louvor'', ''introdutoria'']
      else if dayType = ''friday'' then [''pregacao'', ''portaria'']
      else [])"

text \<open>\<^verbatim>\<open>getRequiredCount\<close> of \<^verbatim>\<open>Dashboard\<close> (part_002, lines 225-233).\<close>

definition getRequiredCount :: "string \<Rightarrow> string \<Rightarrow> nat" where
  "getRequiredCount functionType dayType =
     (if functionType = ''pregacao'' \<or> functionType = ''introdutoria'' \<or> functionType = ''portaria''
      then 1
      else if functionType = ''limpeza'' \<or> functionType = ''louvor'' then 3
      else 1)"

text \<open>\<^verbatim>\<open>getRequiredCount\<close> of \<^verbatim>\<open>AdminPanel\<close> (part_002, lines 680-688), a second copy.\<close>

definition getRequiredCount_AdminPanel :: "string \<Rightarrow> string \<Rightarrow> nat" where
  "getRequiredCount_AdminPanel functionType dayType =
     (if functionType = ''pregacao'' \<or> functionType = ''introdutoria'' \<or> functionType = ''portaria''
      then 1
      else if functionType = ''limpeza'' \<or> functionType = ''louvor'' then 3
      else 1)"

text \<open>
  The requirements lookup as \<^verbatim>\<open>ScheduleCard\<close> performs it (part_002, lines 251 and 263-265):
  every function of \<^verbatim>\<open>getAllFunctions(day_type)\<close> is paired with
  \<^verbatim>\<open>getRequiredCount(functionType, day_type)\<close>.
\<close>

definition requirementsFor :: "string \<Rightarrow> (string \<times> nat) list" where
  "requirementsFor dayType = map (\<lambda>functionType. (functionType, getRequiredCount functionType dayType))
     (getAllFunctions dayType)"

section \<open>The schedule form of the administration panel\<close>

text \<open>\<^verbatim>\<open>initializeScheduleAssignments\<close> (part_002, lines 581-599).\<close>

definition initializeScheduleAssignments :: "string \<Rightarrow> assignment list" where
  "initializeScheduleAssignments dayType =
     (if dayType = ''wednesday'' \<or> dayType = ''saturday'' then
        [\<lparr>function_type = ''pregacao'', user_ids = [], responses = Map.empty\<rparr>,
         \<lparr>function_type = ''limpeza'', user_ids = [], responses = Map.empty\<rparr>,
         \<lparr>function_type = ''louvor'', user_ids = [], responses = Map.empty\<rparr>,
         \<lparr>function_type = ''introdutoria'', user_ids = [], responses = Map.empty\<rparr>]
      else if dayType = ''friday'' then
        [\<lparr>function_type = ''pregacao'', user_ids = [], responses = Map.empty\<rparr>,
         \<lparr>function_type = ''portaria'', user_ids = [], responses = Map.empty\<rparr>]
      else [])"

text \<open>
  The requirements shown by the schedule form (part_002, lines 907-913): every assignment of
  the form is listed with \<^verbatim>\<open>getRequiredCount(assignment.function_type, day_type)\<close>.
\<close>

definition formRequirements :: "scheduleForm \<Rightarrow> (string \<times> nat) list" where
  "formRequirements form = map (\<lambda>a. (function_type a,
       getRequiredCount_AdminPanel (function_type a) (form_day_type form)))
     (form_assignments form)"

text \<open>The click handler of the new-schedule button (part_002, lines 862-866).\<close>

definition newScheduleForm :: scheduleForm where
  "newScheduleForm = \<lparr>form_date = [], form_day_type = ''wednesday'',
     form_assignments = initializeScheduleAssignments ''wednesday''\<rparr>"

text \<open>\<^verbatim>\<open>handleDayTypeChange\<close> (part_002, lines 601-607).\<close>

definition handleDayTypeChange :: "scheduleForm \<Rightarrow> string \<Rightarrow> scheduleForm" where
  "handleDayTypeChange form dayType =
     form\<lparr>form_day_type := dayType, form_assignments := initializeScheduleAssignments dayType\<rparr>"

text \<open>
  The form state set by \<^verbatim>\<open>handleEditSchedule\<close> (part_002, lines 638-646); the handler also
  records the schedule being edited and opens the form.
\<close>

definition handleEditSchedule :: "schedule \<Rightarrow> scheduleForm" where
  "handleEditSchedule sched = \<lparr>form_date = date sched, form_day_type = day_type sched,
     form_assignments = assignments sched\<rparr>"

text \<open>The date input of the schedule form (part_002, line 885).\<close>

definition handleDateChange :: "scheduleForm \<Rightarrow> string \<Rightarrow> scheduleForm" where
  "handleDateChange form d = form\<lparr>form_date := d\<rparr>"

text \<open>
  \<^verbatim>\<open>handleAssignmentChange\<close> (part_002, lines 609-613). The array is copied and the
  assignment at \<^verbatim>\<open>assignmentIndex\<close> gets the new \<^verbatim>\<open>user_ids\<close>; nothing else of it is
  touched. When the index is past the end, \<^verbatim>\<open>newAssignments[assignmentIndex]\<close> is
  \<^verbatim>\<open>undefined\<close> and the property write throws a \<^verbatim>\<open>TypeError\<close>. (The copy is shallow: the
  assignment object is shared with the previous form state. Only the resulting form state is
  modelled.)
\<close>

datatype js_error = TypeError

definition handleAssignmentChange ::
    "scheduleForm \<Rightarrow> nat \<Rightarrow> userId list \<Rightarrow> js_error + scheduleForm" where
  "handleAssignmentChange form assignmentIndex userIds =
     (if assignmentIndex < length (form_assignments form)
      then Inr (form\<lparr>form_assignments := (form_assignments form)
             [assignmentIndex := (form_assignments form ! assignmentIndex)\<lparr>user_ids := userIds\<rparr>]\<rparr>)
      else Inl TypeError)"

text \<open>
  The over-staffing warning of the schedule form (part_002, lines 938-942): the paragraph is
  rendered when \<^verbatim>\<open>assignment.user_ids.length > getRequiredCount(...)\<close>.
\<close>

definition overStaffingWarning :: "assignment \<Rightarrow> string \<Rightarrow> bool" where
  "overStaffingWarning a dayType =
     (length (user_ids a) > getRequiredCount_AdminPanel (function_type a) dayType)"

section \<open>The role sections of the two schedule cards\<close>

text \<open>
  A role section of a schedule card: the function type whose label heads the section and the
  assignment whose users are listed in it, if there is one.
\<close>

record roleSection =
  section_function :: string
  section_assignment :: "assignment option"

text \<open>
  \<^verbatim>\<open>ScheduleCard\<close> of part_002 (lines 251 and 263-264): one section per function of
  \<^verbatim>\<open>getAllFunctions(schedule.day_type)\<close>, with the first assignment of that function type
  (\<^verbatim>\<open>Array.prototype.find\<close>), or none.
\<close>

definition ScheduleCard_sections :: "schedule \<Rightarrow> roleSection list" where
  "ScheduleCard_sections sched =
     map (\<lambda>functionType. \<lparr>section_function = functionType,
            section_assignment =
              List.find (\<lambda>a. function_type a = functionType) (assignments sched)\<rparr>)
       (getAllFunctions (day_type sched))"

text \<open>
  \<^verbatim>\<open>ScheduleCard\<close> of \<^verbatim>\<open>src/frontend/src/App.js\<close> (lines 241-245): one section per assignment
  of the record.
\<close>

definition ScheduleCard_sections_frontend :: "schedule \<Rightarrow> roleSection list" where
  "ScheduleCard_sections_frontend sched =
     map (\<lambda>a. \<lparr>section_function = function_type a, section_assignment = Some a\<rparr>)
       (assignments sched)"

section \<open>The operations behind the HTTP interface\<close>

text \<open>
  The front end calls \<^verbatim>\<open>POST /api/schedule-response\<close>, \<^verbatim>\<open>POST /api/schedules\<close> and
  \<^verbatim>\<open>PUT /api/schedules/{id}\<close> (part_002, lines 190-203 and 615-636). The code serving these
  requests is not among the sources; the operations are modelled from the specification.
\<close>

datatype error = ValidationError | NotFoundError | AuthorizationError | InvalidStateError

text \<open>
  Modelled from the spec: the current response status of a user in an assignment (spec 4.3,
  states of the ResponseTracker). \<open>Pending\<close> is the initial state; a user without a recorded
  entry has not answered and counts as \<open>Pending\<close>.
\<close>

definition statusOf :: "assignment \<Rightarrow> userId \<Rightarrow> status" where
  "statusOf a u = (case responses a u of None \<Rightarrow> Pending | Some r \<Rightarrow> status r)"

text \<open>The first assignment of the given role is replaced, the others are kept.\<close>

fun replaceAssignment :: "string \<Rightarrow> assignment \<Rightarrow> assignment list \<Rightarrow> assignment list" where
  "replaceAssignment roleType a' [] = []"
| "replaceAssignment roleType a' (x # xs) =
     (if function_type x = roleType then a' # xs else x # replaceAssignment roleType a' xs)"

text \<open>
  Modelled from the spec: \<^verbatim>\<open>recordResponse(scheduleId, roleType, userId, status, reason?)\<close>
  of the ResponseTracker, which is the missing handler of \<^verbatim>\<open>/api/schedule-response\<close>
  (spec 4.3, 6 and 8). The caller's identity is an explicit argument (spec 6 and 9), and
  \<open>now\<close> is the time stamp of the recorded response. The call fails with \<open>NotFoundError\<close>
  if the schedule or the role does not exist; with \<open>AuthorizationError\<close> if the caller is
  not among the user ids of the role (spec 8); with \<open>NotFoundError\<close> if the referenced user
  id is not within the role; with \<open>AuthorizationError\<close> if the caller is not the referenced
  user id; and with \<open>InvalidStateError\<close> if the current status is not \<open>Pending\<close>. On
  success the response entry is replaced, the reason being stored only with \<open>Declined\<close>, and
  the updated assignment is returned together with the new store. A failed call returns the
  error alone: no store is produced, so nothing is changed.
\<close>

definition recordResponse ::
    "(string \<Rightarrow> schedule option) \<Rightarrow> nat \<Rightarrow> userId \<Rightarrow> string \<Rightarrow> string \<Rightarrow> userId \<Rightarrow> status
       \<Rightarrow> string option \<Rightarrow> error + (assignment \<times> (string \<Rightarrow> schedule option))" where
  "recordResponse store now caller scheduleId roleType userId st rsn =
     (case store scheduleId of
        None \<Rightarrow> Inl NotFoundError
      | Some sched \<Rightarrow>
          (case List.find (\<lambda>a. function_type a = roleType) (assignments sched) of
             None \<Rightarrow> Inl NotFoundError
           | Some a \<Rightarrow>
               if caller \<notin> set (user_ids a) then Inl AuthorizationError
               else if userId \<notin> set (user_ids a) then Inl NotFoundError
               else if caller \<noteq> userId then Inl AuthorizationError
               else if statusOf a userId \<noteq> Pending then Inl InvalidStateError
               else
                 let a' = a\<lparr>responses := (responses a)(userId \<mapsto>
                            \<lparr>status = st,
                             reason = (if st = Declined then rsn else None),
                             recordedAt = now\<rparr>)\<rparr>
                 in Inr (a', store(scheduleId \<mapsto>
                      sched\<lparr>assignments := replaceAssignment roleType a' (assignments sched)\<rparr>))))"

text \<open>
  Modelled from the spec: the recognised day types (spec 3, DayType), the missing validation
  of the handlers of \<^verbatim>\<open>/api/schedules\<close>.
\<close>

definition recognizedDayType :: "string \<Rightarrow> bool" where
  "recognizedDayType dayType =
     (dayType = ''wednesday'' \<or> dayType = ''friday'' \<or> dayType = ''saturday'')"

text \<open>
  Modelled from the spec: the assignment built for one required role (spec 4.2). The user ids
  the caller supplied for the role are kept, without repetitions (spec 3: uniqueness is
  enforced); a role the caller did not supply starts empty. A user who already has a
  response for this role in the previous record keeps it; every other user gets a \<open>Pending\<close>
  entry (spec 3, lifecycle), and no entry is kept for a user who is not assigned.
\<close>

definition buildAssignment ::
    "nat \<Rightarrow> assignment list \<Rightarrow> assignment list \<Rightarrow> string \<Rightarrow> assignment" where
  "buildAssignment now previous supplied roleType =
     (let ids = (case List.find (\<lambda>a. function_type a = roleType) supplied of
                   None \<Rightarrow> []
                 | Some a \<Rightarrow> remdups (user_ids a));
          old = (case List.find (\<lambda>a. function_type a = roleType) previous of
                   None \<Rightarrow> Map.empty
                 | Some a \<Rightarrow> responses a)
      in \<lparr>function_type = roleType, user_ids = ids,
          responses = (\<lambda>u. if u \<in> set ids
                            then (case old u of
                                    None \<Rightarrow> Some \<lparr>status = Pending, reason = None, recordedAt = now\<rparr>
                                  | Some r \<Rightarrow> Some r)
                            else None)\<rparr>)"

text \<open>
  Modelled from the spec: the warnings of a creation or update result (spec 4.2): the roles
  that have more user ids than their required count. The counts are those of the
  requirements lookup above.
\<close>

definition overStaffedRoles :: "string \<Rightarrow> assignment list \<Rightarrow> string list" where
  "overStaffedRoles dayType as =
     map function_type
       (filter (\<lambda>a. length (user_ids a) > getRequiredCount (function_type a) dayType) as)"

text \<open>
  Modelled from the spec: \<^verbatim>\<open>create(date, dayType, optional partial assignments)\<close>, the
  missing handler of \<^verbatim>\<open>POST /api/schedules\<close> (spec 4.2 and 6). \<open>parseable\<close> stands for the
  date parser, \<open>newId\<close> for the identifier given to the record. An empty or unparseable date
  and an unrecognised day type are rejected with \<open>ValidationError\<close>. The assignments are
  those of the roles the day type requires, in the order of the requirements lookup; roles
  outside it are dropped. Under-staffing is valid, over-staffing is reported as a warning in
  the result.
\<close>

definition createSchedule ::
    "(string \<Rightarrow> bool) \<Rightarrow> nat \<Rightarrow> string \<Rightarrow> string \<Rightarrow> string \<Rightarrow> assignment list
       \<Rightarrow> error + (schedule \<times> string list)" where
  "createSchedule parseable now newId d dayType supplied =
     (if d = [] \<or> \<not> parseable d \<or> \<not> recognizedDayType dayType then Inl ValidationError
      else
        let as = map (buildAssignment now [] supplied) (map fst (requirementsFor dayType))
        in Inr (\<lparr>schedule_id = newId, date = d, day_type = dayType, assignments = as\<rparr>,
                overStaffedRoles dayType as))"

text \<open>
  Modelled from the spec: \<^verbatim>\<open>updateSchedule(scheduleId, date, dayType, assignments)\<close>, the
  missing handler of \<^verbatim>\<open>PUT /api/schedules/{id}\<close> (spec 4.2 and 6): \<open>NotFoundError\<close> if
  the schedule is absent, then the validation of \<open>createSchedule\<close>. The role set is that of
  the new day type: assignments of roles it does not require are dropped with their
  responses, and a role the previous record did not have starts without any recorded answer.
\<close>

definition updateSchedule ::
    "(string \<Rightarrow> bool) \<Rightarrow> nat \<Rightarrow> (string \<Rightarrow> schedule option) \<Rightarrow> string \<Rightarrow> string \<Rightarrow> string
       \<Rightarrow> assignment list \<Rightarrow> error + (schedule \<times> string list \<times> (string \<Rightarrow> schedule option))" where
  "updateSchedule parseable now store scheduleId d dayType supplied =
     (case store scheduleId of
        None \<Rightarrow> Inl NotFoundError
      | Some existing \<Rightarrow>
          if d = [] \<or> \<not> parseable d \<or> \<not> recognizedDayType dayType then Inl ValidationError
          else
            let as = map (buildAssignment now (assignments existing) supplied)
                       (map fst (requirementsFor dayType));
                sched = \<lparr>schedule_id = scheduleId, date = d, day_type = dayType, assignments = as\<rparr>
            in Inr (sched, overStaffedRoles dayType as, store(scheduleId \<mapsto> sched)))"

section \<open>Role requirements: results\<close>

text \<open>
  C1. For the day types Wednesday and Saturday the requirements lookup returns exactly
  Preaching (pregacao) 1, Cleaning (limpeza) 3, Worship (louvor) 3 and Welcome
  (introdutoria) 1, and for Friday exactly Preaching 1 and DoorService (portaria) 1. The
  schedule form of the administration panel, which lists the assignments of
  \<^verbatim>\<open>initializeScheduleAssignments\<close> with its own copy of \<^verbatim>\<open>getRequiredCount\<close>, shows the
  same table.
\<close>

theorem C1_requirements_table:
  "requirementsFor ''wednesday''
     = [(''pregacao'', 1), (''limpeza'', 3), (''louvor'', 3), (''introdutoria'', 1)]
   \<and> requirementsFor ''saturday''
     = [(''pregacao'', 1), (''limpeza'', 3), (''louvor'', 3), (''introdutoria'', 1)]
   \<and> requirementsFor ''friday'' = [(''pregacao'', 1), (''portaria'', 1)]
   \<and> formRequirements (handleDayTypeChange form ''wednesday'') = requirementsFor ''wednesday''
   \<and> formRequirements (handleDayTypeChange form ''saturday'') = requirementsFor ''saturday''
   \<and> formRequirements (handleDayTypeChange form ''friday'') = requirementsFor ''friday''"
  by (simp add: requirementsFor_def getAllFunctions_def getRequiredCount_def
      formRequirements_def handleDayTypeChange_def initializeScheduleAssignments_def
      getRequiredCount_AdminPanel_def)

text \<open>
  C9. \<^verbatim>\<open>getRequiredCount\<close> does not depend on its day type argument, in either of its two
  copies, and for a function type outside pregacao, introdutoria, portaria, limpeza and
  louvor it returns the fallback value 1.
\<close>

theorem C9_getRequiredCount_ignores_dayType:
  "getRequiredCount functionType d1 = getRequiredCount functionType d2
   \<and> getRequiredCount_AdminPanel functionType d1 = getRequiredCount_AdminPanel functionType d2
   \<and> (functionType \<notin> {''pregacao'', ''introdutoria'', ''portaria'', ''limpeza'', ''louvor''}
        \<longrightarrow> getRequiredCount functionType d1 = 1
            \<and> getRequiredCount_AdminPanel functionType d1 = 1)"
  by (simp add: getRequiredCount_def getRequiredCount_AdminPanel_def)

text \<open>C9 at the function type \<open>''batismo''\<close>, which is none of the five.\<close>

theorem C9_getRequiredCount_witness:
  "getRequiredCount ''batismo'' ''wednesday'' = getRequiredCount ''batismo'' ''friday''
   \<and> getRequiredCount ''batismo'' ''wednesday'' = 1
   \<and> getRequiredCount_AdminPanel ''batismo'' ''wednesday'' = 1"
  using C9_getRequiredCount_ignores_dayType [of "''batismo''" "''wednesday''" "''friday''"]
  by simp

text \<open>
  C8, as the code has it. For a day type that is none of wednesday, friday and saturday the
  lookup does not fail: \<^verbatim>\<open>getAllFunctions\<close> returns the empty list, so the requirements are
  empty, and \<^verbatim>\<open>initializeScheduleAssignments\<close> returns no assignment.
\<close>

theorem C8_unrecognized_dayType_empty:
  "dayType \<noteq> ''wednesday'' \<Longrightarrow> dayType \<noteq> ''friday'' \<Longrightarrow> dayType \<noteq> ''saturday''
   \<Longrightarrow> getAllFunctions dayType = [] \<and> requirementsFor dayType = []
     \<and> initializeScheduleAssignments dayType = []"
  by (simp add: getAllFunctions_def requirementsFor_def initializeScheduleAssignments_def)

text \<open>C8 at the day type \<open>''sunday''\<close>.\<close>

theorem C8_unrecognized_dayType_witness:
  "getAllFunctions ''sunday'' = [] \<and> requirementsFor ''sunday'' = []
   \<and> initializeScheduleAssignments ''sunday'' = []"
  using C8_unrecognized_dayType_empty [of "''sunday''"] by simp

text \<open>
  C8 as stated fails: the lookup for an unrecognised day type returns a result, the empty
  list, and the required count of a role is still reported for it.
\<close>

theorem C8_counterexample:
  "requirementsFor ''domingo'' = [] \<and> getAllFunctions [] = []
   \<and> getRequiredCount ''limpeza'' ''domingo'' = 3"
  by (simp add: getAllFunctions_def requirementsFor_def getRequiredCount_def)

section \<open>The schedule form: results\<close>

text \<open>
  C2. For every date and every day type, a schedule form started with the new-schedule
  button and given that date and day type (in either order) holds exactly one assignment
  per function of \<^verbatim>\<open>getAllFunctions\<close> of the day type, in that order, each with no user ids
  and no responses; this is what \<^verbatim>\<open>initializeScheduleAssignments\<close> returns.
\<close>

theorem C2_initial_assignments:
  "initializeScheduleAssignments dayType
     = map (\<lambda>functionType.
              \<lparr>function_type = functionType, user_ids = [], responses = Map.empty\<rparr>)
         (getAllFunctions dayType)
   \<and> form_assignments newScheduleForm
     = map (\<lambda>functionType.
              \<lparr>function_type = functionType, user_ids = [], responses = Map.empty\<rparr>)
         (getAllFunctions (form_day_type newScheduleForm))
   \<and> handleDayTypeChange (handleDateChange newScheduleForm d) dayType
     = \<lparr>form_date = d, form_day_type = dayType,
        form_assignments =
          map (\<lambda>functionType.
                 \<lparr>function_type = functionType, user_ids = [], responses = Map.empty\<rparr>)
            (getAllFunctions dayType)\<rparr>
   \<and> handleDateChange (handleDayTypeChange newScheduleForm dayType) d
     = handleDayTypeChange (handleDateChange newScheduleForm d) dayType"
  by (simp add: initializeScheduleAssignments_def getAllFunctions_def newScheduleForm_def
      handleDayTypeChange_def handleDateChange_def)

text \<open>
  C5, as the code has it. Changing the day type of a schedule opened for editing replaces the
  whole assignment list by the empty assignments of the new day type: the roles are those of
  \<^verbatim>\<open>getAllFunctions\<close> of the new day type, and each of them, also a role that both day types
  require, has no user ids and no responses. The date is kept. Changing to Friday leaves an
  empty pregacao and an empty portaria assignment.
\<close>

theorem C5_dayType_change_resets_assignments:
  "handleDayTypeChange (handleEditSchedule sched) dayType
     = \<lparr>form_date = date sched, form_day_type = dayType,
        form_assignments =
          map (\<lambda>functionType.
                 \<lparr>function_type = functionType, user_ids = [], responses = Map.empty\<rparr>)
            (getAllFunctions dayType)\<rparr>
   \<and> form_assignments (handleDayTypeChange (handleEditSchedule sched) ''friday'')
     = [\<lparr>function_type = ''pregacao'', user_ids = [], responses = Map.empty\<rparr>,
        \<lparr>function_type = ''portaria'', user_ids = [], responses = Map.empty\<rparr>]"
  by (simp add: handleDayTypeChange_def handleEditSchedule_def initializeScheduleAssignments_def
      getAllFunctions_def)

text \<open>
  C5 as stated fails: pregacao is required on Wednesday and on Friday, the Wednesday schedule
  has the user \<open>''u1''\<close> on it, and after the change to Friday the pregacao assignment of
  the form has no user.
\<close>

theorem C5_counterexample:
  "''pregacao'' \<in> set (getAllFunctions ''wednesday'')
   \<and> ''pregacao'' \<in> set (getAllFunctions ''friday'')
   \<and> map_option user_ids (List.find (\<lambda>a. function_type a = ''pregacao'')
       (form_assignments (handleEditSchedule
          \<lparr>schedule_id = ''s1'', date = ''2025-01-01'', day_type = ''wednesday'',
           assignments =
            [\<lparr>function_type = ''pregacao'', user_ids = [''u1''], responses = Map.empty\<rparr>,
             \<lparr>function_type = ''limpeza'', user_ids = [], responses = Map.empty\<rparr>,
             \<lparr>function_type = ''louvor'', user_ids = [], responses = Map.empty\<rparr>,
             \<lparr>function_type = ''introdutoria'', user_ids = [], responses = Map.empty\<rparr>]\<rparr>)))
     = Some [''u1'']
   \<and> map_option user_ids (List.find (\<lambda>a. function_type a = ''pregacao'')
       (form_assignments (handleDayTypeChange (handleEditSchedule
          \<lparr>schedule_id = ''s1'', date = ''2025-01-01'', day_type = ''wednesday'',
           assignments =
            [\<lparr>function_type = ''pregacao'', user_ids = [''u1''], responses = Map.empty\<rparr>,
             \<lparr>function_type = ''limpeza'', user_ids = [], responses = Map.empty\<rparr>,
             \<lparr>function_type = ''louvor'', user_ids = [], responses = Map.empty\<rparr>,
             \<lparr>function_type = ''introdutoria'', user_ids = [], responses = Map.empty\<rparr>]\<rparr>)
          ''friday'')))
     = Some []"
  by (simp add: handleDayTypeChange_def handleEditSchedule_def initializeScheduleAssignments_def
      getAllFunctions_def)

text \<open>
  C4, as the code has it. \<^verbatim>\<open>handleAssignmentChange\<close> at an index of the form replaces the
  user ids of that assignment and nothing else: its function type and its responses mapping
  are the ones it had, and every other assignment, the date and the day type are unchanged.
  So no response entry is created for a user id that is added (it has an entry afterwards
  only if the mapping already held one for it), and the entry of a user id that is removed
  stays.
\<close>

theorem C4_handleAssignmentChange_keeps_responses:
  assumes "i < length (form_assignments form)"
  shows "\<exists>form'. handleAssignmentChange form i userIds = Inr form'
     \<and> form_date form' = form_date form \<and> form_day_type form' = form_day_type form
     \<and> length (form_assignments form') = length (form_assignments form)
     \<and> function_type (form_assignments form' ! i) = function_type (form_assignments form ! i)
     \<and> user_ids (form_assignments form' ! i) = userIds
     \<and> responses (form_assignments form' ! i) = responses (form_assignments form ! i)
     \<and> (\<forall>j. j \<noteq> i \<longrightarrow> form_assignments form' ! j = form_assignments form ! j)"
  using assms by (simp add: handleAssignmentChange_def)

text \<open>C4 on the new Wednesday form: two users are put on limpeza, the assignment at index 1.\<close>

theorem C4_handleAssignmentChange_witness:
  "handleAssignmentChange newScheduleForm 1 [''u1'', ''u2'']
   = Inr \<lparr>form_date = [], form_day_type = ''wednesday'', form_assignments =
        [\<lparr>function_type = ''pregacao'', user_ids = [], responses = Map.empty\<rparr>,
         \<lparr>function_type = ''limpeza'', user_ids = [''u1'', ''u2''], responses = Map.empty\<rparr>,
         \<lparr>function_type = ''louvor'', user_ids = [], responses = Map.empty\<rparr>,
         \<lparr>function_type = ''introdutoria'', user_ids = [], responses = Map.empty\<rparr>]\<rparr>"
proof -
  have len: "1 < length (form_assignments newScheduleForm)"
    by (simp add: newScheduleForm_def initializeScheduleAssignments_def)
  from C4_handleAssignmentChange_keeps_responses [OF len, of "[''u1'', ''u2'']"]
  show ?thesis
    by (simp add: newScheduleForm_def initializeScheduleAssignments_def
        handleAssignmentChange_def)
qed

text \<open>
  C4 as stated fails, in both parts. On the new Wednesday form the user \<open>''u1''\<close> is added to
  pregacao and has no response entry. On a schedule opened for editing in which \<open>''u1''\<close> has
  accepted pregacao, removing the user from the role leaves the response entry, a key of
  the responses mapping that is not among the user ids.
\<close>

theorem C4_counterexample:
  "(case handleAssignmentChange newScheduleForm 0 [''u1''] of
      Inl e \<Rightarrow> False
    | Inr form \<Rightarrow> ''u1'' \<in> set (user_ids (form_assignments form ! 0))
        \<and> responses (form_assignments form ! 0) ''u1'' = None)
   \<and> (case handleAssignmentChange
       (handleEditSchedule \<lparr>schedule_id = ''s1'', date = ''2025-01-03'', day_type = ''friday'',
          assignments =
            [\<lparr>function_type = ''pregacao'', user_ids = [''u1''],
              responses = [''u1'' \<mapsto> \<lparr>status = Accepted, reason = None, recordedAt = 7\<rparr>]\<rparr>,
             \<lparr>function_type = ''portaria'', user_ids = [], responses = Map.empty\<rparr>]\<rparr>) 0 [] of
      Inl e \<Rightarrow> False
    | Inr form \<Rightarrow> ''u1'' \<notin> set (user_ids (form_assignments form ! 0))
        \<and> responses (form_assignments form ! 0) ''u1''
            = Some \<lparr>status = Accepted, reason = None, recordedAt = 7\<rparr>)"
  by (simp add: handleAssignmentChange_def newScheduleForm_def initializeScheduleAssignments_def
      handleEditSchedule_def)

section \<open>The two schedule cards: results\<close>

lemma find_by_key_map:
  "distinct (map f xs) \<Longrightarrow> map (\<lambda>k. List.find (\<lambda>a. f a = k) xs) (map f xs) = map Some xs"
proof (induction xs)
  case Nil
  then show ?case by simp
next
  case (Cons x xs)
  have "map (\<lambda>k. List.find (\<lambda>a. f a = k) (x # xs)) (map f xs)
        = map (\<lambda>k. List.find (\<lambda>a. f a = k) xs) (map f xs)"
    using Cons.prems by (intro map_cong) auto
  with Cons show ?case by simp
qed

lemma distinct_getAllFunctions: "distinct (getAllFunctions dayType)"
  by (simp add: getAllFunctions_def)

text \<open>
  C10, as the code has it. The card of part_002 and the card of \<^verbatim>\<open>src/frontend/src/App.js\<close>
  render the same role sections, with the same assignment in each, exactly for the records
  whose assignments are one per function of \<^verbatim>\<open>getAllFunctions(day_type)\<close>, in that order.
\<close>

theorem C10_cards_agree_iff_canonical:
  "ScheduleCard_sections sched = ScheduleCard_sections_frontend sched
   \<longleftrightarrow> map function_type (assignments sched) = getAllFunctions (day_type sched)"
proof
  assume "ScheduleCard_sections sched = ScheduleCard_sections_frontend sched"
  then have "map section_function (ScheduleCard_sections sched)
      = map section_function (ScheduleCard_sections_frontend sched)"
    by simp
  then show "map function_type (assignments sched) = getAllFunctions (day_type sched)"
    by (simp add: ScheduleCard_sections_def ScheduleCard_sections_frontend_def comp_def)
next
  assume eq: "map function_type (assignments sched) = getAllFunctions (day_type sched)"
  then have "distinct (map function_type (assignments sched))"
    by (simp add: distinct_getAllFunctions)
  then have "map (\<lambda>k. List.find (\<lambda>a. function_type a = k) (assignments sched))
                (map function_type (assignments sched)) = map Some (assignments sched)"
    by (rule find_by_key_map)
  then have "map (\<lambda>k. List.find (\<lambda>a. function_type a = k) (assignments sched))
                (getAllFunctions (day_type sched)) = map Some (assignments sched)"
    by (simp add: eq)
  then have sec: "map section_assignment (ScheduleCard_sections sched)
      = map section_assignment (ScheduleCard_sections_frontend sched)"
    by (simp add: ScheduleCard_sections_def ScheduleCard_sections_frontend_def comp_def)
  have fn: "map section_function (ScheduleCard_sections sched)
      = map section_function (ScheduleCard_sections_frontend sched)"
    using eq by (simp add: ScheduleCard_sections_def ScheduleCard_sections_frontend_def comp_def)
  show "ScheduleCard_sections sched = ScheduleCard_sections_frontend sched"
  proof (rule nth_equalityI)
    show len: "length (ScheduleCard_sections sched)
        = length (ScheduleCard_sections_frontend sched)"
      using fn by (metis length_map)
    fix i assume i: "i < length (ScheduleCard_sections sched)"
    have "section_function (ScheduleCard_sections sched ! i)
        = section_function (ScheduleCard_sections_frontend sched ! i)"
      using fn i len by (metis nth_map)
    moreover have "section_assignment (ScheduleCard_sections sched ! i)
        = section_assignment (ScheduleCard_sections_frontend sched ! i)"
      using sec i len by (metis nth_map)
    ultimately show "ScheduleCard_sections sched ! i = ScheduleCard_sections_frontend sched ! i"
      by simp
  qed
qed

text \<open>C10 on a Friday record with its two assignments: both cards render the same sections.\<close>

theorem C10_cards_agree_witness:
  "ScheduleCard_sections \<lparr>schedule_id = ''s1'', date = ''2025-01-03'', day_type = ''friday'',
      assignments = [\<lparr>function_type = ''pregacao'', user_ids = [''u1''], responses = Map.empty\<rparr>,
                     \<lparr>function_type = ''portaria'', user_ids = [], responses = Map.empty\<rparr>]\<rparr>
   = ScheduleCard_sections_frontend
       \<lparr>schedule_id = ''s1'', date = ''2025-01-03'', day_type = ''friday'',
        assignments = [\<lparr>function_type = ''pregacao'', user_ids = [''u1''], responses = Map.empty\<rparr>,
                       \<lparr>function_type = ''portaria'', user_ids = [], responses = Map.empty\<rparr>]\<rparr>"
  using C10_cards_agree_iff_canonical
    [of "\<lparr>schedule_id = ''s1'', date = ''2025-01-03'', day_type = ''friday'',
      assignments = [\<lparr>function_type = ''pregacao'', user_ids = [''u1''], responses = Map.empty\<rparr>,
                     \<lparr>function_type = ''portaria'', user_ids = [], responses = Map.empty\<rparr>]\<rparr>"]
  by (simp add: getAllFunctions_def)

text \<open>
  C10 as stated fails: for a Wednesday record without assignments the card of part_002
  renders four sections, each without an assignment, and the card of
  \<^verbatim>\<open>src/frontend/src/App.js\<close> renders none.
\<close>

theorem C10_counterexample:
  "ScheduleCard_sections
     \<lparr>schedule_id = ''s1'', date = ''2025-01-01'', day_type = ''wednesday'', assignments = []\<rparr>
   = [\<lparr>section_function = ''pregacao'', section_assignment = None\<rparr>,
      \<lparr>section_function = ''limpeza'', section_assignment = None\<rparr>,
      \<lparr>section_function = ''louvor'', section_assignment = None\<rparr>,
      \<lparr>section_function = ''introdutoria'', section_assignment = None\<rparr>]
   \<and> ScheduleCard_sections_frontend
       \<lparr>schedule_id = ''s1'', date = ''2025-01-01'', day_type = ''wednesday'', assignments = []\<rparr>
     = []"
  by (simp add: ScheduleCard_sections_def ScheduleCard_sections_frontend_def getAllFunctions_def)

section \<open>Recording a response: results\<close>

lemma find_role_function_type:
  "List.find (\<lambda>x. function_type x = roleType) as = Some a \<Longrightarrow> function_type a = roleType"
  by (induction as) (auto split: if_splits)

lemma find_replaceAssignment:
  "List.find (\<lambda>x. function_type x = roleType) as = Some a \<Longrightarrow> function_type a' = roleType
   \<Longrightarrow> List.find (\<lambda>x. function_type x = roleType) (replaceAssignment roleType a' as) = Some a'"
  by (induction as) (auto split: if_splits)

lemma recordResponse_Inr:
  assumes "recordResponse store now caller sid roleType uid st rsn = Inr (a', store')"
  obtains sched a where "store sid = Some sched"
    and "List.find (\<lambda>x. function_type x = roleType) (assignments sched) = Some a"
    and "uid \<in> set (user_ids a)" and "caller = uid" and "statusOf a uid = Pending"
    and "a' = a\<lparr>responses := (responses a)(uid \<mapsto>
                  \<lparr>status = st, reason = (if st = Declined then rsn else None),
                   recordedAt = now\<rparr>)\<rparr>"
    and "store' = store(sid \<mapsto>
           sched\<lparr>assignments := replaceAssignment roleType a' (assignments sched)\<rparr>)"
  using assms unfolding recordResponse_def
  by (auto simp: Let_def split: option.splits if_splits)

lemma recordResponse_not_Pending:
  assumes "store sid = Some sched"
    and "List.find (\<lambda>x. function_type x = roleType) (assignments sched) = Some a"
    and "statusOf a uid \<noteq> Pending"
  shows "recordResponse store now caller sid roleType uid st rsn =
     (if caller \<notin> set (user_ids a) then Inl AuthorizationError
      else if uid \<notin> set (user_ids a) then Inl NotFoundError
      else if caller \<noteq> uid then Inl AuthorizationError else Inl InvalidStateError)"
  using assms by (simp add: recordResponse_def)

text \<open>
  C3. \<^verbatim>\<open>recordResponse\<close> succeeds only from the \<open>Pending\<close> status, and its result has the
  recorded status. After a successful call with a terminal status, a second call for the same
  schedule, role and user fails with \<open>InvalidStateError\<close>, whatever status it asks for. From
  \<open>Accepted\<close> or \<open>Declined\<close> no call succeeds, so there is no transition back to \<open>Pending\<close>
  or to the other terminal state; for the assigned user answering for themselves the error
  is \<open>InvalidStateError\<close>.
\<close>

theorem C3_recordResponse_one_shot:
  "(recordResponse store now caller sid roleType uid st rsn = Inr (a', store') \<longrightarrow>
      (\<exists>sched a. store sid = Some sched
         \<and> List.find (\<lambda>x. function_type x = roleType) (assignments sched) = Some a
         \<and> statusOf a uid = Pending \<and> statusOf a' uid = st)
      \<and> (st \<noteq> Pending \<longrightarrow>
           recordResponse store' now2 caller sid roleType uid st2 rsn2 = Inl InvalidStateError))
   \<and> (store sid = Some sched
        \<and> List.find (\<lambda>x. function_type x = roleType) (assignments sched) = Some a
        \<and> statusOf a uid \<noteq> Pending \<longrightarrow>
        (\<exists>e. recordResponse store now caller sid roleType uid st rsn = Inl e)
        \<and> (uid \<in> set (user_ids a) \<and> caller = uid \<longrightarrow>
             recordResponse store now caller sid roleType uid st rsn = Inl InvalidStateError))"
proof (intro conjI impI)
  assume ok: "recordResponse store now caller sid roleType uid st rsn = Inr (a', store')"
  from ok obtain sched0 a0 where s: "store sid = Some sched0"
    and f: "List.find (\<lambda>x. function_type x = roleType) (assignments sched0) = Some a0"
    and p: "statusOf a0 uid = Pending"
    and a': "a' = a0\<lparr>responses := (responses a0)(uid \<mapsto>
                  \<lparr>status = st, reason = (if st = Declined then rsn else None),
                   recordedAt = now\<rparr>)\<rparr>"
    by (rule recordResponse_Inr)
  have st': "statusOf a' uid = st" by (simp add: a' statusOf_def)
  from s f p st' show "\<exists>sched a. store sid = Some sched
         \<and> List.find (\<lambda>x. function_type x = roleType) (assignments sched) = Some a
         \<and> statusOf a uid = Pending \<and> statusOf a' uid = st"
    by blast
next
  assume ok: "recordResponse store now caller sid roleType uid st rsn = Inr (a', store')"
    and terminal: "st \<noteq> Pending"
  from ok obtain sched0 a0 where s: "store sid = Some sched0"
    and f: "List.find (\<lambda>x. function_type x = roleType) (assignments sched0) = Some a0"
    and u: "uid \<in> set (user_ids a0)" and c: "caller = uid"
    and a': "a' = a0\<lparr>responses := (responses a0)(uid \<mapsto>
                  \<lparr>status = st, reason = (if st = Declined then rsn else None),
                   recordedAt = now\<rparr>)\<rparr>"
    and store': "store' = store(sid \<mapsto>
           sched0\<lparr>assignments := replaceAssignment roleType a' (assignments sched0)\<rparr>)"
    by (rule recordResponse_Inr)
  have ft: "function_type a' = roleType"
    using find_role_function_type [OF f] by (simp add: a')
  have s': "store' sid
      = Some (sched0\<lparr>assignments := replaceAssignment roleType a' (assignments sched0)\<rparr>)"
    by (simp add: store')
  have f': "List.find (\<lambda>x. function_type x = roleType)
      (assignments (sched0\<lparr>assignments := replaceAssignment roleType a' (assignments sched0)\<rparr>))
      = Some a'"
    using find_replaceAssignment [OF f ft] by simp
  have np: "statusOf a' uid \<noteq> Pending" using terminal by (simp add: a' statusOf_def)
  have u': "uid \<in> set (user_ids a')" using u by (simp add: a')
  show "recordResponse store' now2 caller sid roleType uid st2 rsn2 = Inl InvalidStateError"
    using s' f' np u' c by (simp add: recordResponse_not_Pending)
next
  assume h: "store sid = Some sched
        \<and> List.find (\<lambda>x. function_type x = roleType) (assignments sched) = Some a
        \<and> statusOf a uid \<noteq> Pending"
  then show "\<exists>e. recordResponse store now caller sid roleType uid st rsn = Inl e"
    by (simp add: recordResponse_not_Pending)
next
  assume h: "store sid = Some sched
        \<and> List.find (\<lambda>x. function_type x = roleType) (assignments sched) = Some a
        \<and> statusOf a uid \<noteq> Pending"
    and "uid \<in> set (user_ids a) \<and> caller = uid"
  then show "recordResponse store now caller sid roleType uid st rsn = Inl InvalidStateError"
    by (simp add: recordResponse_not_Pending)
qed

text \<open>
  C3 on a Friday schedule with \<open>''u1''\<close> on pregacao: the user accepts, which succeeds, and
  then tries to decline, which fails with \<open>InvalidStateError\<close>.
\<close>

theorem C3_recordResponse_witness:
  "recordResponse
      [''s1'' \<mapsto> \<lparr>schedule_id = ''s1'', date = ''2025-01-03'', day_type = ''friday'',
          assignments = [\<lparr>function_type = ''pregacao'', user_ids = [''u1''], responses = Map.empty\<rparr>,
                         \<lparr>function_type = ''portaria'', user_ids = [], responses = Map.empty\<rparr>]\<rparr>]
      10 ''u1'' ''s1'' ''pregacao'' ''u1'' Accepted None
    = Inr (\<lparr>function_type = ''pregacao'', user_ids = [''u1''],
            responses = [''u1'' \<mapsto> \<lparr>status = Accepted, reason = None, recordedAt = 10\<rparr>]\<rparr>,
           [''s1'' \<mapsto> \<lparr>schedule_id = ''s1'', date = ''2025-01-03'', day_type = ''friday'',
              assignments = [\<lparr>function_type = ''pregacao'', user_ids = [''u1''],
                   responses = [''u1'' \<mapsto> \<lparr>status = Accepted, reason = None, recordedAt = 10\<rparr>]\<rparr>,
                 \<lparr>function_type = ''portaria'', user_ids = [], responses = Map.empty\<rparr>]\<rparr>])
   \<and> recordResponse
      [''s1'' \<mapsto> \<lparr>schedule_id = ''s1'', date = ''2025-01-03'', day_type = ''friday'',
              assignments = [\<lparr>function_type = ''pregacao'', user_ids = [''u1''],
                   responses = [''u1'' \<mapsto> \<lparr>status = Accepted, reason = None, recordedAt = 10\<rparr>]\<rparr>,
                 \<lparr>function_type = ''portaria'', user_ids = [], responses = Map.empty\<rparr>]\<rparr>]
      11 ''u1'' ''s1'' ''pregacao'' ''u1'' Declined (Some ''late'') = Inl InvalidStateError"
proof -
  let ?store = "[''s1'' \<mapsto> \<lparr>schedule_id = ''s1'', date = ''2025-01-03'', day_type = ''friday'',
          assignments = [\<lparr>function_type = ''pregacao'', user_ids = [''u1''], responses = Map.empty\<rparr>,
                         \<lparr>function_type = ''portaria'', user_ids = [], responses = Map.empty\<rparr>]\<rparr>]"
  let ?a' = "\<lparr>function_type = ''pregacao'', user_ids = [''u1''],
            responses = [''u1'' \<mapsto> \<lparr>status = Accepted, reason = None, recordedAt = 10\<rparr>]\<rparr>"
  let ?store' = "[''s1'' \<mapsto> \<lparr>schedule_id = ''s1'', date = ''2025-01-03'', day_type = ''friday'',
      assignments = [?a', \<lparr>function_type = ''portaria'', user_ids = [], responses = Map.empty\<rparr>]\<rparr>]"
  have first: "recordResponse ?store 10 ''u1'' ''s1'' ''pregacao'' ''u1'' Accepted None
      = Inr (?a', ?store')"
    by (simp add: recordResponse_def statusOf_def Let_def)
  have "Accepted \<noteq> Pending" by simp
  with first C3_recordResponse_one_shot
      [of ?store 10 "''u1''" "''s1''" "''pregacao''" "''u1''" Accepted None ?a' ?store'
        11 Declined "Some ''late''"]
  have "recordResponse ?store' 11 ''u1'' ''s1'' ''pregacao'' ''u1'' Declined (Some ''late'')
      = Inl InvalidStateError"
    by blast
  with first show ?thesis by blast
qed

text \<open>
  C7. A call to \<^verbatim>\<open>recordResponse\<close> on an existing schedule and role by a caller whose user
  id is not among the user ids of the role fails with \<open>AuthorizationError\<close>, whichever user
  id the call refers to (the caller's own, or that of an assigned user for whom an
  administrator tries to answer). The result is the error alone, so no response entry of any
  assignment is changed.
\<close>

theorem C7_recordResponse_caller_not_assigned:
  assumes "store sid = Some sched"
    and "List.find (\<lambda>x. function_type x = roleType) (assignments sched) = Some a"
    and "caller \<notin> set (user_ids a)"
  shows "recordResponse store now caller sid roleType uid st rsn = Inl AuthorizationError"
  using assms by (simp add: recordResponse_def)

text \<open>
  C7 on a Friday schedule with \<open>''u1''\<close> on pregacao: an administrator who answers for
  \<open>''u1''\<close>, and the user \<open>''u2''\<close> who answers for themselves without being assigned.
\<close>

theorem C7_recordResponse_witness:
  "recordResponse
      [''s1'' \<mapsto> \<lparr>schedule_id = ''s1'', date = ''2025-01-03'', day_type = ''friday'',
          assignments = [\<lparr>function_type = ''pregacao'', user_ids = [''u1''], responses = Map.empty\<rparr>,
                         \<lparr>function_type = ''portaria'', user_ids = [], responses = Map.empty\<rparr>]\<rparr>]
      10 ''admin'' ''s1'' ''pregacao'' ''u1'' Accepted None = Inl AuthorizationError
   \<and> recordResponse
      [''s1'' \<mapsto> \<lparr>schedule_id = ''s1'', date = ''2025-01-03'', day_type = ''friday'',
          assignments = [\<lparr>function_type = ''pregacao'', user_ids = [''u1''], responses = Map.empty\<rparr>,
                         \<lparr>function_type = ''portaria'', user_ids = [], responses = Map.empty\<rparr>]\<rparr>]
      10 ''u2'' ''s1'' ''pregacao'' ''u2'' Accepted None = Inl AuthorizationError"
proof -
  let ?a = "\<lparr>function_type = ''pregacao'', user_ids = [''u1''], responses = Map.empty\<rparr>"
  let ?sched = "\<lparr>schedule_id = ''s1'', date = ''2025-01-03'', day_type = ''friday'',
      assignments = [?a, \<lparr>function_type = ''portaria'', user_ids = [], responses = Map.empty\<rparr>]\<rparr>"
  let ?store = "[''s1'' \<mapsto> ?sched]"
  have s: "?store ''s1'' = Some ?sched" by simp
  have f: "List.find (\<lambda>x. function_type x = ''pregacao'') (assignments ?sched) = Some ?a"
    by simp
  have admin: "''admin'' \<notin> set (user_ids ?a)" by simp
  have other: "''u2'' \<notin> set (user_ids ?a)" by simp
  have "recordResponse ?store 10 ''admin'' ''s1'' ''pregacao'' ''u1'' Accepted None
      = Inl AuthorizationError"
    using s f admin
    by (rule C7_recordResponse_caller_not_assigned
        [of ?store "''s1''" ?sched "''pregacao''" ?a "''admin''" 10 "''u1''" Accepted None])
  moreover have "recordResponse ?store 10 ''u2'' ''s1'' ''pregacao'' ''u2'' Accepted None
      = Inl AuthorizationError"
    using s f other
    by (rule C7_recordResponse_caller_not_assigned
        [of ?store "''s1''" ?sched "''pregacao''" ?a "''u2''" 10 "''u2''" Accepted None])
  ultimately show ?thesis by simp
qed

section \<open>Creating and updating a schedule: results\<close>

lemma function_type_buildAssignment [simp]:
  "function_type (buildAssignment now previous supplied roleType) = roleType"
  by (simp add: buildAssignment_def Let_def)

lemma find_map_buildAssignment:
  "roleType \<in> set roles \<Longrightarrow>
   List.find (\<lambda>x. function_type x = roleType) (map (buildAssignment now previous supplied) roles)
     = Some (buildAssignment now previous supplied roleType)"
  by (induction roles) auto

lemma user_ids_buildAssignment:
  "List.find (\<lambda>x. function_type x = roleType) supplied = Some a \<Longrightarrow> distinct (user_ids a)
   \<Longrightarrow> user_ids (buildAssignment now previous supplied roleType) = user_ids a"
  by (simp add: buildAssignment_def Let_def)

lemma roles_requirementsFor: "map fst (requirementsFor dayType) = getAllFunctions dayType"
  by (simp add: requirementsFor_def comp_def)

lemma overStaffedRoles_member:
  "b \<in> set as \<Longrightarrow> getRequiredCount (function_type b) dayType < length (user_ids b)
   \<Longrightarrow> function_type b \<in> set (overStaffedRoles dayType as)"
  by (simp add: overStaffedRoles_def)

lemma getRequiredCount_AdminPanel_eq:
  "getRequiredCount_AdminPanel functionType dayType = getRequiredCount functionType dayType"
  by (simp add: getRequiredCount_AdminPanel_def getRequiredCount_def)

lemma built_over_staffed:
  fixes now :: nat and previous supplied :: "assignment list"
  assumes r: "roleType \<in> set (getAllFunctions dayType)"
    and f: "List.find (\<lambda>x. function_type x = roleType) supplied = Some a"
    and d: "distinct (user_ids a)"
    and n: "getRequiredCount roleType dayType < length (user_ids a)"
  defines "as \<equiv> map (buildAssignment now previous supplied) (map fst (requirementsFor dayType))"
  shows "roleType \<in> set (overStaffedRoles dayType as)
     \<and> (\<exists>b. List.find (\<lambda>x. function_type x = roleType) as = Some b
            \<and> user_ids b = user_ids a \<and> overStaffingWarning b dayType)"
proof -
  let ?b = "buildAssignment now previous supplied roleType"
  have ids: "user_ids ?b = user_ids a" using f d by (rule user_ids_buildAssignment)
  have found: "List.find (\<lambda>x. function_type x = roleType) as = Some ?b"
    unfolding as_def roles_requirementsFor using r by (rule find_map_buildAssignment)
  have mem: "?b \<in> set as"
    unfolding as_def roles_requirementsFor using r by simp
  have "function_type ?b \<in> set (overStaffedRoles dayType as)"
    using mem by (rule overStaffedRoles_member) (simp add: ids n)
  moreover have "overStaffingWarning ?b dayType"
    by (simp add: overStaffingWarning_def getRequiredCount_AdminPanel_eq ids n)
  ultimately show ?thesis using found ids by simp
qed

text \<open>
  C6. For a valid date and a recognised day type, when the caller supplies more user ids for
  a required role than its required count (the ids being distinct), \<^verbatim>\<open>createSchedule\<close>
  succeeds, and so does \<^verbatim>\<open>updateSchedule\<close> on an existing schedule: the result is a record,
  never an error, the role is among the warnings of the result, the assignment of the role
  keeps all the supplied user ids, and the schedule form shows its over-staffing warning for
  that assignment.
\<close>

theorem C6_over_staffing_accepted_with_warning:
  assumes v: "d \<noteq> []" "parseable d" "recognizedDayType dayType"
    and r: "roleType \<in> set (getAllFunctions dayType)"
    and f: "List.find (\<lambda>x. function_type x = roleType) supplied = Some a"
    and dist: "distinct (user_ids a)"
    and n: "getRequiredCount roleType dayType < length (user_ids a)"
  shows "(\<exists>sched ws. createSchedule parseable now newId d dayType supplied = Inr (sched, ws)
            \<and> roleType \<in> set ws
            \<and> (\<exists>b. List.find (\<lambda>x. function_type x = roleType) (assignments sched) = Some b
                  \<and> user_ids b = user_ids a \<and> overStaffingWarning b dayType))
       \<and> (store sid = Some existing \<longrightarrow>
            (\<exists>sched ws store'.
               updateSchedule parseable now store sid d dayType supplied = Inr (sched, ws, store')
               \<and> store' sid = Some sched \<and> roleType \<in> set ws
               \<and> (\<exists>b. List.find (\<lambda>x. function_type x = roleType) (assignments sched) = Some b
                     \<and> user_ids b = user_ids a \<and> overStaffingWarning b dayType)))"
proof (intro conjI impI)
  show "\<exists>sched ws. createSchedule parseable now newId d dayType supplied = Inr (sched, ws)
            \<and> roleType \<in> set ws
            \<and> (\<exists>b. List.find (\<lambda>x. function_type x = roleType) (assignments sched) = Some b
                  \<and> user_ids b = user_ids a \<and> overStaffingWarning b dayType)"
    using v built_over_staffed [OF r f dist n, of now "[]"]
    by (simp add: createSchedule_def Let_def)
next
  assume "store sid = Some existing"
  then show "\<exists>sched ws store'.
               updateSchedule parseable now store sid d dayType supplied = Inr (sched, ws, store')
               \<and> store' sid = Some sched \<and> roleType \<in> set ws
               \<and> (\<exists>b. List.find (\<lambda>x. function_type x = roleType) (assignments sched) = Some b
                     \<and> user_ids b = user_ids a \<and> overStaffingWarning b dayType)"
    using v built_over_staffed [OF r f dist n, of now "assignments existing"]
    by (simp add: updateSchedule_def Let_def)
qed

text \<open>
  C6 on a Wednesday schedule with four users on limpeza, which requires three: the creation
  succeeds with the warning for limpeza, and so does the update of an existing schedule.
\<close>

theorem C6_over_staffing_witness:
  "map_sum (\<lambda>e. e) snd
     (createSchedule (\<lambda>s. length s = 10) 5 ''s1'' ''2025-01-01'' ''wednesday''
        [\<lparr>function_type = ''limpeza'', user_ids = [''u1'', ''u2'', ''u3'', ''u4''],
          responses = Map.empty\<rparr>]) = Inr [''limpeza'']
   \<and> (\<exists>sched ws store'.
        updateSchedule (\<lambda>s. length s = 10) 5
          [''s1'' \<mapsto> \<lparr>schedule_id = ''s1'', date = ''2025-01-08'', day_type = ''wednesday'',
                        assignments = initializeScheduleAssignments ''wednesday''\<rparr>]
          ''s1'' ''2025-01-01'' ''wednesday''
          [\<lparr>function_type = ''limpeza'', user_ids = [''u1'', ''u2'', ''u3'', ''u4''],
            responses = Map.empty\<rparr>] = Inr (sched, ws, store')
        \<and> ''limpeza'' \<in> set ws)"
proof -
  let ?supplied = "[\<lparr>function_type = ''limpeza'', user_ids = [''u1'', ''u2'', ''u3'', ''u4''],
          responses = Map.empty\<rparr>]"
  let ?store = "[''s1'' \<mapsto> \<lparr>schedule_id = ''s1'', date = ''2025-01-08'', day_type = ''wednesday'',
                        assignments = initializeScheduleAssignments ''wednesday''\<rparr>]"
  have v: "''2025-01-01'' \<noteq> []" "(\<lambda>s. length s = 10) ''2025-01-01''"
      "recognizedDayType ''wednesday''"
    by (simp_all add: recognizedDayType_def)
  have r: "''limpeza'' \<in> set (getAllFunctions ''wednesday'')"
    by (simp add: getAllFunctions_def)
  have f: "List.find (\<lambda>x. function_type x = ''limpeza'') ?supplied = Some (hd ?supplied)"
    by simp
  have dist: "distinct (user_ids (hd ?supplied))" by simp
  have n: "getRequiredCount ''limpeza'' ''wednesday'' < length (user_ids (hd ?supplied))"
    by (simp add: getRequiredCount_def)
  have s: "?store ''s1'' = Some \<lparr>schedule_id = ''s1'', date = ''2025-01-08'', day_type = ''wednesday'',
                        assignments = initializeScheduleAssignments ''wednesday''\<rparr>"
    by simp
  note inst = C6_over_staffing_accepted_with_warning
      [of "''2025-01-01''" "\<lambda>s. length s = 10", OF v r f dist n, of 5 "''s1''" ?store "''s1''" _ ]
  have upd: "\<exists>sched ws store'.
        updateSchedule (\<lambda>s. length s = 10) 5 ?store ''s1'' ''2025-01-01'' ''wednesday'' ?supplied
          = Inr (sched, ws, store') \<and> ''limpeza'' \<in> set ws"
    using inst s by blast
  have cr: "map_sum (\<lambda>e. e) snd
     (createSchedule (\<lambda>s. length s = 10) 5 ''s1'' ''2025-01-01'' ''wednesday'' ?supplied)
       = Inr [''limpeza'']"
    by (simp add: createSchedule_def recognizedDayType_def requirementsFor_def getAllFunctions_def
        overStaffedRoles_def buildAssignment_def getRequiredCount_def Let_def)
  from cr upd show ?thesis by blast
qed

end
